theory Spec2Isabelle
  imports Main "HOL-Library.Word" "HOL-Library.Char_ord" "HOL-Library.List_Lexorder"
    "HOL-Library.Log_Nat"
begin

section \<open>MiftahDB: the key-value layer of \<^verbatim>\<open>src/base.ts\<close>\<close>

text \<open>
  \<^verbatim>\<open>BaseMiftahDB\<close> is a class over one SQL table \<^verbatim>\<open>(key, value, expires_at)\<close>. Each
  method binds its arguments to a prepared statement and post-processes the rows in
  JavaScript. The methods are embedded as functions that take the table and return the
  outcome of the call (a thrown error or the returned value) together with the table
  after the call. \<^verbatim>\<open>Date.now()\<close> is the argument \<open>now\<close> (milliseconds since the epoch).

  Three parts of the repository are imported by \<^verbatim>\<open>base.ts\<close> and are not among the
  sources: \<^verbatim>\<open>encoding.ts\<close> (the value codec), \<^verbatim>\<open>statements.ts\<close> (the SQL texts) and
  \<^verbatim>\<open>types.ts\<close>. The codec is a parameter of every method that uses it; the statements
  are modelled from the specification, each under a comment that says so.
\<close>

subsection \<open>Data\<close>

type_synonym bytes = "8 word list"

text \<open>
  Modelled from the spec: the error taxonomy of section 7 (the classes themselves are
  not in \<^verbatim>\<open>base.ts\<close>, which constructs no error of its own).
\<close>

datatype error = ValidationError | DecodeError | BackendError

text \<open>
  \<^verbatim>\<open>encodeValue\<close> and \<^verbatim>\<open>decodeValue\<close> of \<^verbatim>\<open>encoding.ts\<close>, as parameters: either may
  throw. \<open>'v\<close> is the type of application values (\<^verbatim>\<open>MiftahValue\<close>).
\<close>

record 'v codec =
  encodeValue :: "'v \<Rightarrow> error + bytes"
  decodeValue :: "bytes \<Rightarrow> error + 'v"

text \<open>
  A row of the table: columns \<^verbatim>\<open>key TEXT PRIMARY KEY\<close>, \<^verbatim>\<open>value BLOB\<close>,
  \<^verbatim>\<open>expires_at INTEGER NULL\<close> (\<open>None\<close> is SQL NULL). The table is the list of its rows
  in the order in which the engine scans them. The backend is "key-ordered storage"
  (glossary of the specification): the rows are kept in the order of their keys,
  compared byte by byte, a proper prefix first.
\<close>

record row =
  row_key :: string
  row_value :: bytes
  row_expires_at :: "int option"

type_synonym db = "row list"

text \<open>\<^verbatim>\<open>MiftahDBItem\<close>: what the GET statement selects, fields \<^verbatim>\<open>value\<close> and \<^verbatim>\<open>expires_at\<close>.\<close>

record MiftahDBItem =
  item_value :: bytes
  expires_at :: "int option"

text \<open>
  An element of the argument of \<^verbatim>\<open>multiSet\<close>: \<^verbatim>\<open>{ key; value; expiresAt?: Date }\<close>. A
  \<^verbatim>\<open>Date\<close> is its time value \<^verbatim>\<open>getTime()\<close>; \<open>None\<close> is \<^verbatim>\<open>undefined\<close>. (An invalid
  \<^verbatim>\<open>Date\<close>, whose time value is NaN, is outside the model.)
\<close>

record 'v entry =
  key :: string
  entry_value :: 'v
  expiresAt :: "int option"

text \<open>The outcome of a call and the table after it.\<close>

type_synonym 'a outcome = "(error + 'a) \<times> db"

subsection \<open>The statements\<close>

text \<open>
  Modelled from the spec: the SQL engine and the texts of \<^verbatim>\<open>SQL_STATEMENTS\<close> are not in
  the sources. Each statement below is written from what sections 3, 4.2 and 6 of the
  specification say the verb does on the table. The statements are taken to run
  against an open, healthy backend, so none of them fails.
\<close>

text \<open>Modelled from the spec: GET, "fetch row" by primary key; \<open>None\<close> is \<^verbatim>\<open>undefined\<close>.\<close>

definition stmt_get :: "db \<Rightarrow> string \<Rightarrow> MiftahDBItem option" where
  "stmt_get db k =
     map_option (\<lambda>r. \<lparr>item_value = row_value r, expires_at = row_expires_at r\<rparr>)
       (find (\<lambda>r. row_key r = k) db)"

text \<open>
  Modelled from the spec: SET, "upsert row (insert or overwrite on key conflict), set
  expires_at". The row in conflict is removed and the new row is inserted at the place
  of its key.
\<close>

definition stmt_set :: "db \<Rightarrow> string \<Rightarrow> bytes \<Rightarrow> int option \<Rightarrow> db" where
  "stmt_set db k b e =
     insort_key row_key \<lparr>row_key = k, row_value = b, row_expires_at = e\<rparr>
       (filter (\<lambda>r. row_key r \<noteq> k) db)"

text \<open>
  Modelled from the spec: EXISTS, "reflects raw row presence": one row with one column,
  1 or 0.
\<close>

definition stmt_exists :: "db \<Rightarrow> string \<Rightarrow> int" where
  "stmt_exists db k = (if find (\<lambda>r. row_key r = k) db = None then 0 else 1)"

text \<open>Modelled from the spec: DELETE, "remove row if present".\<close>

definition stmt_delete :: "db \<Rightarrow> string \<Rightarrow> db" where
  "stmt_delete db k = filter (\<lambda>r. row_key r \<noteq> k) db"

text \<open>
  Modelled from the spec: RENAME, bound as \<^verbatim>\<open>(newKey, oldKey)\<close>: "row at oldKey is
  relabeled to newKey (overwriting any existing newKey row)", nothing when no row has
  the old key. The relabelled row moves to the place of its new key.
\<close>

definition stmt_rename :: "db \<Rightarrow> string \<Rightarrow> string \<Rightarrow> db" where
  "stmt_rename db newKey oldKey =
     (case find (\<lambda>r. row_key r = oldKey) db of
        None \<Rightarrow> db
      | Some r \<Rightarrow>
          insort_key row_key (r\<lparr>row_key := newKey\<rparr>)
            (filter (\<lambda>r. row_key r \<noteq> oldKey \<and> row_key r \<noteq> newKey) db))"

text \<open>
  Modelled from the spec: GET_EXPIRE selects the column \<^verbatim>\<open>expires_at\<close> of the row; the
  outer \<open>None\<close> is \<^verbatim>\<open>undefined\<close> (no row), the inner one is NULL.
\<close>

definition stmt_getExpire :: "db \<Rightarrow> string \<Rightarrow> int option option" where
  "stmt_getExpire db k = map_option row_expires_at (find (\<lambda>r. row_key r = k) db)"

text \<open>
  Modelled from the spec: SET_EXPIRE, bound as \<^verbatim>\<open>(expiresAtMs, key)\<close>: "update only the
  expires_at column", "no-op if key absent".
\<close>

definition stmt_setExpire :: "db \<Rightarrow> int \<Rightarrow> string \<Rightarrow> db" where
  "stmt_setExpire db t k =
     map (\<lambda>r. if row_key r = k then r\<lparr>row_expires_at := Some t\<rparr> else r) db"

text \<open>
  Modelled from the spec: the "SQL-LIKE-style pattern applied to key". \<^verbatim>\<open>%\<close> matches
  any run of characters and \<^verbatim>\<open>_\<close> any one character; other characters match
  themselves (an engine may fold their case; no property below depends on how two
  characters compare).
\<close>

fun like :: "string \<Rightarrow> string \<Rightarrow> bool" where
  "like [] s = (s = [])"
| "like (p # ps) [] = (p = CHR ''%'' \<and> like ps [])"
| "like (p # ps) (c # cs) =
     (if p = CHR ''%'' then like ps (c # cs) \<or> like (p # ps) cs
      else (p = CHR ''_'' \<or> p = c) \<and> like ps cs)"

text \<open>
  Modelled from the spec: KEYS, the "ordered sequence of matching keys": the column
  \<^verbatim>\<open>key\<close> of the matching rows, in scan order. (The methods map each returned row to
  its \<^verbatim>\<open>key\<close>; the statements here return the keys themselves.)
\<close>

definition stmt_keys :: "db \<Rightarrow> string \<Rightarrow> string list" where
  "stmt_keys db pattern = map row_key (filter (\<lambda>r. like pattern (row_key r)) db)"

text \<open>
  The numbers of JavaScript are IEEE doubles. An integer \<open>n\<close> stands for the double
  nearest to it: \<open>n\<close> itself up to \<open>2 ^ 53\<close> in magnitude, beyond that \<open>n\<close> rounded to 53
  significant bits, a tie going to the even neighbour; an integer that rounds to
  \<open>2 ^ 1024\<close> or more in magnitude stands for an infinity. The difference and the
  product of two numbers are formed in the same way, from the exact result. A product
  with an infinite factor is an infinity or, the other factor being 0, NaN: the model
  returns the infinite factor for it, which like those is no integer for the backend.
  (Fractions, and NaN as an argument, are outside the model.)
\<close>

definition round_double :: "int \<Rightarrow> int" where
  "round_double n =
     (let e = bitlen \<bar>n\<bar> - 53 in
      if e \<le> 0 then n
      else
        (let u = 2 ^ nat e; q = \<bar>n\<bar> div u; r = \<bar>n\<bar> mod u;
             m = (if u < 2 * r \<or> (u = 2 * r \<and> odd q) then q + 1 else q)
         in sgn n * (m * u)))"

definition js_minus :: "int \<Rightarrow> int \<Rightarrow> int" where
  "js_minus a b = round_double (a - b)"

definition js_times :: "int \<Rightarrow> int \<Rightarrow> int" where
  "js_times a b =
     (if 2 ^ 1024 \<le> \<bar>a\<bar> then a
      else if 2 ^ 1024 \<le> \<bar>b\<bar> then b
      else round_double (a * b))"

text \<open>
  What SQLite takes as the integer of a \<^verbatim>\<open>LIMIT\<close> or \<^verbatim>\<open>OFFSET\<close>: a number with an integer
  value strictly between the least and the greatest 64-bit integer. Any other number
  ends the statement with the error "datatype mismatch".
\<close>

definition sqlite_integer :: "int \<Rightarrow> bool" where
  "sqlite_integer d = (- (2 ^ 63) < d \<and> d < 2 ^ 63 - 1)"

text \<open>
  \<^verbatim>\<open>OFFSET n\<close> skips \<open>n\<close> rows, none when \<open>n\<close> is negative, and \<^verbatim>\<open>LIMIT n\<close> keeps at most
  \<open>n\<close> rows, all of them when \<open>n\<close> is negative. (The tests against the length keep
  large numbers away from \<open>drop\<close> and \<open>take\<close>, which count down one by one.)
\<close>

definition sql_offset :: "int \<Rightarrow> 'a list \<Rightarrow> 'a list" where
  "sql_offset n rows = (if int (length rows) \<le> n then [] else drop (nat n) rows)"

definition sql_limit :: "int \<Rightarrow> 'a list \<Rightarrow> 'a list" where
  "sql_limit n rows = (if n < 0 \<or> int (length rows) \<le> n then rows else take (nat n) rows)"

text \<open>
  Modelled from the spec: PAGINATION, bound as \<^verbatim>\<open>(pattern, limit, offset)\<close>: the rows
  of KEYS cut by \<^verbatim>\<open>LIMIT limit OFFSET offset\<close>. The specification fixes the cut for
  \<open>limit > 0\<close> and \<open>offset \<ge> 0\<close>; outside that range the model follows SQLite, the
  engine the class is typed against: a limit or an offset that is no integer of
  SQLite's is an error of the backend, a negative offset counts as 0 and a negative
  limit is no limit.
\<close>

definition stmt_pagination :: "db \<Rightarrow> string \<Rightarrow> int \<Rightarrow> int \<Rightarrow> error + string list" where
  "stmt_pagination db pattern limit offset =
     (if \<not> sqlite_integer limit \<or> \<not> sqlite_integer offset then Inl BackendError
      else Inr (sql_limit limit (sql_offset offset (stmt_keys db pattern))))"

text \<open>
  Modelled from the spec: CLEANUP, bound as \<^verbatim>\<open>(now)\<close>: "physically deletes all rows
  with expires_at \<le> now". A NULL \<^verbatim>\<open>expires_at\<close> compares to nothing.
\<close>

definition passed :: "int \<Rightarrow> row \<Rightarrow> bool" where
  "passed now r = (case row_expires_at r of None \<Rightarrow> False | Some t \<Rightarrow> t \<le> now)"

definition stmt_cleanup :: "db \<Rightarrow> int \<Rightarrow> db" where
  "stmt_cleanup db now = filter (\<lambda>r. \<not> passed now r) db"

text \<open>Modelled from the spec: COUNT_KEYS, "total matching rows (expired or not)".\<close>

definition stmt_countKeys :: "db \<Rightarrow> string \<Rightarrow> int" where
  "stmt_countKeys db pattern = int (length (filter (\<lambda>r. like pattern (row_key r)) db))"

text \<open>
  Modelled from the spec: \<^verbatim>\<open>db.transaction(fn)()\<close> of the backend, "all succeed or the
  whole batch is rolled back on any failure": the callback runs on the table; when it
  throws, the table is restored and the error is thrown on.
\<close>

definition transaction :: "(db \<Rightarrow> 'a outcome) \<Rightarrow> db \<Rightarrow> 'a outcome" where
  "transaction fn db =
     (case fn db of (Inl e, _) \<Rightarrow> (Inl e, db) | (Inr a, db') \<Rightarrow> (Inr a, db'))"

subsection \<open>The methods of \<^verbatim>\<open>BaseMiftahDB\<close>\<close>

text \<open>
  \<^verbatim>\<open>delete(key)\<close>: runs DELETE.
\<close>

definition delete :: "db \<Rightarrow> string \<Rightarrow> unit outcome" where
  "delete db k = (Inr (), stmt_delete db k)"

text \<open>
  The test of \<^verbatim>\<open>get\<close>, \<^verbatim>\<open>result?.expires_at && result.expires_at <= Date.now()\<close>: the
  left operand is the column itself, which JavaScript takes as false when it is
  \<^verbatim>\<open>null\<close> and also when it is the number 0.
\<close>

definition expired_on_read :: "int option \<Rightarrow> int \<Rightarrow> bool" where
  "expired_on_read e now = (case e of None \<Rightarrow> False | Some t \<Rightarrow> t \<noteq> 0 \<and> t \<le> now)"

text \<open>
  \<^verbatim>\<open>get(key)\<close>. The returned \<^verbatim>\<open>null\<close> is \<open>None\<close>; a decoded value \<open>v\<close> is \<open>Some v\<close>.
\<close>

definition get :: "'v codec \<Rightarrow> db \<Rightarrow> int \<Rightarrow> string \<Rightarrow> 'v option outcome" where
  "get c db now k =
     (case stmt_get db k of
        None \<Rightarrow> (Inr None, db)
      | Some result \<Rightarrow>
          if expired_on_read (expires_at result) now
          then (case delete db k of
                  (Inl e, db') \<Rightarrow> (Inl e, db')
                | (Inr _, db') \<Rightarrow> (Inr None, db'))
          else (case decodeValue c (item_value result) of
                  Inl e \<Rightarrow> (Inl e, db)
                | Inr v \<Rightarrow> (Inr (Some v), db)))"

text \<open>
  \<^verbatim>\<open>set(key, value, expiresAt?)\<close>, the argument \<^verbatim>\<open>expiresAt\<close> being \<open>expiry\<close>: the value is
  encoded first, so an error of the codec leaves before SET runs.
  \<^verbatim>\<open>expiresAt?.getTime() ?? null\<close> keeps every time value, 0 included, and turns
  \<^verbatim>\<open>undefined\<close> into NULL.
\<close>

definition set_kv :: "'v codec \<Rightarrow> db \<Rightarrow> string \<Rightarrow> 'v \<Rightarrow> int option \<Rightarrow> unit outcome" where
  "set_kv c db k v expiry =
     (case encodeValue c v of
        Inl e \<Rightarrow> (Inl e, db)
      | Inr encodedValue \<Rightarrow>
          (let expiresAtMs = (case expiry of Some t \<Rightarrow> Some t | None \<Rightarrow> None)
           in (Inr (), stmt_set db k encodedValue expiresAtMs)))"

text \<open>\<^verbatim>\<open>exists(key)\<close>: \<^verbatim>\<open>Boolean\<close> of the one column of the row EXISTS returns.\<close>

definition exists :: "db \<Rightarrow> string \<Rightarrow> bool outcome" where
  "exists db k = (Inr (stmt_exists db k \<noteq> 0), db)"

text \<open>\<^verbatim>\<open>rename(oldKey, newKey)\<close>: runs RENAME with \<^verbatim>\<open>(newKey, oldKey)\<close>.\<close>

definition rename :: "db \<Rightarrow> string \<Rightarrow> string \<Rightarrow> unit outcome" where
  "rename db oldKey newKey = (Inr (), stmt_rename db newKey oldKey)"

text \<open>\<^verbatim>\<open>setExpire(key, expiresAt)\<close>.\<close>

definition setExpire :: "db \<Rightarrow> string \<Rightarrow> int \<Rightarrow> unit outcome" where
  "setExpire db k expiry = (let expiresAtMs = expiry in (Inr (), stmt_setExpire db expiresAtMs k))"

text \<open>
  \<^verbatim>\<open>getExpire(key)\<close>: \<^verbatim>\<open>result?.expires_at ? new Date(result.expires_at) : null\<close>, again
  a test of the column itself.
\<close>

definition getExpire :: "db \<Rightarrow> string \<Rightarrow> int option outcome" where
  "getExpire db k =
     (Inr (case stmt_getExpire db k of
             None \<Rightarrow> None
           | Some None \<Rightarrow> None
           | Some (Some t) \<Rightarrow> if t \<noteq> 0 then Some t else None), db)"

text \<open>
  \<^verbatim>\<open>keys(pattern)\<close>, \<^verbatim>\<open>pagination(limit, page, pattern)\<close> and \<^verbatim>\<open>count(pattern)\<close>; the
  default pattern is \<^verbatim>\<open>"%"\<close>. \<open>limit\<close> and \<open>page\<close> are numbers with integer values, each
  given by an integer that stands for it; \<^verbatim>\<open>(page - 1) * limit\<close> is computed on doubles.
  An error of the statement leaves the method as it is thrown.
\<close>

definition keys :: "db \<Rightarrow> string \<Rightarrow> string list outcome" where
  "keys db pattern = (Inr (stmt_keys db pattern), db)"

definition pagination :: "db \<Rightarrow> int \<Rightarrow> int \<Rightarrow> string \<Rightarrow> string list outcome" where
  "pagination db limit page pattern =
     (let l = round_double limit; p = round_double page;
          offset = js_times (js_minus p 1) l
      in (stmt_pagination db pattern l offset, db))"

definition count :: "db \<Rightarrow> string \<Rightarrow> int outcome" where
  "count db pattern = (Inr (stmt_countKeys db pattern), db)"

text \<open>
  \<^verbatim>\<open>multiSet(entries)\<close>: the loop over the entries, in their order, inside one
  transaction. A call of \<^verbatim>\<open>set\<close> that throws ends the loop.
\<close>

fun multiSet_loop :: "'v codec \<Rightarrow> 'v entry list \<Rightarrow> db \<Rightarrow> unit outcome" where
  "multiSet_loop c [] db = (Inr (), db)"
| "multiSet_loop c (entry # entries) db =
     (case set_kv c db (key entry) (entry_value entry) (expiresAt entry) of
        (Inl e, db') \<Rightarrow> (Inl e, db')
      | (Inr _, db') \<Rightarrow> multiSet_loop c entries db')"

definition multiSet :: "'v codec \<Rightarrow> db \<Rightarrow> 'v entry list \<Rightarrow> unit outcome" where
  "multiSet c db entries = transaction (multiSet_loop c entries) db"

text \<open>\<^verbatim>\<open>cleanup()\<close>: runs CLEANUP with \<^verbatim>\<open>Date.now()\<close>.\<close>

definition cleanup :: "db \<Rightarrow> int \<Rightarrow> unit outcome" where
  "cleanup db now = (Inr (), stmt_cleanup db now)"

text \<open>
  The row that \<^verbatim>\<open>set\<close> writes for an entry, as GET reads it back: the encoded value
  and the entry's expiry. (None when the value cannot be encoded.)
\<close>

definition written :: "'v codec \<Rightarrow> 'v entry \<Rightarrow> MiftahDBItem option" where
  "written c entry =
     (case encodeValue c (entry_value entry) of
        Inl e \<Rightarrow> None
      | Inr b \<Rightarrow> Some \<lparr>item_value = b, expires_at = expiresAt entry\<rparr>)"

text \<open>
  A codec to run the methods on: an integer \<open>n \<ge> 0\<close> is encoded as \<open>n\<close> zero bytes, a
  negative one cannot be encoded; decoding counts the bytes.
\<close>

definition unary_codec :: "int codec" where
  "unary_codec =
     \<lparr>encodeValue = (\<lambda>n. if n < 0 then Inl ValidationError else Inr (replicate (nat n) 0)),
      decodeValue = (\<lambda>b. Inr (int (length b)))\<rparr>"

text \<open>
  The table after \<^verbatim>\<open>set("k", 5, new Date(0))\<close> on an empty table: one row whose
  \<^verbatim>\<open>expires_at\<close> is the epoch itself.
\<close>

definition epoch_db :: db where
  "epoch_db = snd (set_kv unary_codec [] ''k'' 5 (Some 0))"

text \<open>A table of two rows without expiry, \<open>a\<close> and \<open>b\<close>.\<close>

definition two_db :: db where
  "two_db = stmt_set (stmt_set [] ''a'' [0] None) ''b'' [0, 0] None"

text \<open>The table after \<^verbatim>\<open>multiSet\<close> of the keys \<open>k1\<close> to \<open>k10\<close>, in this order, on an empty table.\<close>

definition ten_db :: db where
  "ten_db = snd (multiSet unary_codec []
     (map (\<lambda>k. \<lparr>key = k, entry_value = 1, expiresAt = None\<rparr>)
        [''k1'', ''k2'', ''k3'', ''k4'', ''k5'', ''k6'', ''k7'', ''k8'', ''k9'', ''k10'']))"

text \<open>
  A table with a row that expired at the epoch, one that never expires, one that
  expires at time 50 and one that expired at time 5.
\<close>

definition mixed_db :: db where
  "mixed_db = [\<lparr>row_key = ''epoch'', row_value = [0], row_expires_at = Some 0\<rparr>,
               \<lparr>row_key = ''ever'', row_value = [0], row_expires_at = None\<rparr>,
               \<lparr>row_key = ''new'', row_value = [0], row_expires_at = Some 50\<rparr>,
               \<lparr>row_key = ''old'', row_value = [0], row_expires_at = Some 5\<rparr>]"

section \<open>Properties\<close>

subsection \<open>Reading a key after a statement\<close>

lemma find_key_filter:
  "find (\<lambda>r. row_key r = k) (filter (\<lambda>r. row_key r \<noteq> k') db) =
     (if k = k' then None else find (\<lambda>r. row_key r = k) db)"
  by (induction db) auto

lemma find_append_cases:
  "find P (xs @ ys) = (case find P xs of None \<Rightarrow> find P ys | Some x \<Rightarrow> Some x)"
  by (induction xs) auto

lemma find_key_insort:
  "find (\<lambda>r. row_key r = k) (insort_key row_key x xs) =
     (if row_key x = k then Some x else find (\<lambda>r. row_key r = k) xs)"
  by (induction xs) auto

lemma stmt_get_set:
  "stmt_get (stmt_set db k b e) k' =
     (if k' = k then Some \<lparr>item_value = b, expires_at = e\<rparr> else stmt_get db k')"
  by (auto simp: stmt_get_def stmt_set_def find_key_insort find_key_filter)

lemma stmt_get_Nil: "stmt_get [] k = None"
  by (simp add: stmt_get_def)

lemma stmt_get_delete:
  "stmt_get (stmt_delete db k) k' = (if k' = k then None else stmt_get db k')"
  by (simp add: stmt_get_def stmt_delete_def find_key_filter)

lemma stmt_getExpire_get:
  "stmt_getExpire db k = map_option expires_at (stmt_get db k)"
  by (simp add: stmt_getExpire_def stmt_get_def option.map_comp comp_def)

lemma stmt_exists_get:
  "stmt_exists db k = (if stmt_get db k = None then 0 else 1)"
  by (simp add: stmt_exists_def stmt_get_def)

lemma like_percent: "like ''%'' s"
  by (induction s) auto

lemma epoch_db_rows:
  "epoch_db = [\<lparr>row_key = ''k'', row_value = [0, 0, 0, 0, 0], row_expires_at = Some 0\<rparr>]"
  by (simp add: epoch_db_def set_kv_def unary_codec_def stmt_set_def eval_nat_numeral)

subsection \<open>\<^verbatim>\<open>get\<close>, \<^verbatim>\<open>exists\<close> and \<^verbatim>\<open>getExpire\<close>\<close>

text \<open>
  The three outcomes of \<^verbatim>\<open>get\<close>, as the code decides them: no row; a row whose
  \<^verbatim>\<open>expires_at\<close> is neither NULL nor 0 and has passed; any other row.
\<close>

lemma get_absent:
  "stmt_get db k = None \<Longrightarrow> get c db now k = (Inr None, db)"
  by (simp add: get_def)

lemma get_reclaims:
  "stmt_get db k = Some it \<Longrightarrow> expires_at it = Some t \<Longrightarrow> t \<noteq> 0 \<Longrightarrow> t \<le> now \<Longrightarrow>
   get c db now k = (Inr None, stmt_delete db k)"
  by (simp add: get_def expired_on_read_def delete_def)

lemma get_decodes:
  "stmt_get db k = Some it \<Longrightarrow> \<not> expired_on_read (expires_at it) now \<Longrightarrow>
   get c db now k =
     (case decodeValue c (item_value it) of
        Inl e \<Rightarrow> (Inl e, db)
      | Inr v \<Rightarrow> (Inr (Some v), db))"
  by (simp add: get_def)

lemma get_reclaimed_row_is_gone:
  "stmt_get db k = Some it \<Longrightarrow> expires_at it = Some t \<Longrightarrow> t \<noteq> 0 \<Longrightarrow> t \<le> now \<Longrightarrow>
   exists (snd (get c db now k)) k = (Inr False, stmt_delete db k)"
  by (simp add: get_reclaims exists_def stmt_exists_get stmt_get_delete)

lemma exists_present:
  "stmt_get db k = Some it \<Longrightarrow> exists db k = (Inr True, db)"
  by (simp add: exists_def stmt_exists_get)

lemma exists_absent:
  "stmt_get db k = None \<Longrightarrow> exists db k = (Inr False, db)"
  by (simp add: exists_def stmt_exists_get)

lemma getExpire_absent:
  "stmt_get db k = None \<Longrightarrow> getExpire db k = (Inr None, db)"
  by (simp add: getExpire_def stmt_getExpire_get)

lemma getExpire_never:
  "stmt_get db k = Some it \<Longrightarrow> expires_at it = None \<Longrightarrow> getExpire db k = (Inr None, db)"
  by (simp add: getExpire_def stmt_getExpire_get)

lemma getExpire_set:
  "stmt_get db k = Some it \<Longrightarrow> expires_at it = Some t \<Longrightarrow> t \<noteq> 0 \<Longrightarrow>
   getExpire db k = (Inr (Some t), db)"
  by (simp add: getExpire_def stmt_getExpire_get)

text \<open>
  The row of \<open>epoch_db\<close> has passed for \<^verbatim>\<open>cleanup\<close>, which removes it at any time from
  the epoch on.
\<close>

lemma cleanup_epoch_db: "cleanup epoch_db 1000 = (Inr (), [])"
  by (simp add: epoch_db_rows cleanup_def stmt_cleanup_def passed_def)

text \<open>
  Claim C1. \<^verbatim>\<open>get(key)\<close> is to return \<^verbatim>\<open>null\<close> and delete the row whenever the row's
  \<^verbatim>\<open>expires_at\<close> is set and at most the current time. The code at the input
  \<^verbatim>\<open>set("k", 5, new Date(0))\<close>, read at time 1000: the row is there, its \<^verbatim>\<open>expires_at\<close>
  is 0, which is set and at most 1000, and \<^verbatim>\<open>get("k")\<close> returns the decoded value 5 and
  leaves the row in the table.
\<close>

theorem get_keeps_row_expiring_at_epoch:
  "stmt_get epoch_db ''k'' = Some \<lparr>item_value = [0, 0, 0, 0, 0], expires_at = Some 0\<rparr> \<and>
   get unary_codec epoch_db 1000 ''k'' = (Inr (Some 5), epoch_db)"
  by (simp add: epoch_db_rows stmt_get_def get_def expired_on_read_def unary_codec_def)

text \<open>
  Claim C5. \<^verbatim>\<open>exists(key)\<close> is to be true of every row that is in the table, expired or
  not, while \<^verbatim>\<open>get(key)\<close> on the same table returns \<^verbatim>\<open>null\<close> for every row whose
  \<^verbatim>\<open>expires_at\<close> is set and at most the current time. The code at the input
  \<^verbatim>\<open>set("k", 5, new Date(0))\<close>, read at time 1000: \<^verbatim>\<open>exists("k")\<close> is true, as claimed,
  and \<^verbatim>\<open>get("k")\<close> returns 5, not \<^verbatim>\<open>null\<close>.
\<close>

theorem exists_and_get_agree_at_epoch:
  "stmt_getExpire epoch_db ''k'' = Some (Some 0) \<and>
   exists epoch_db ''k'' = (Inr True, epoch_db) \<and>
   fst (get unary_codec epoch_db 1000 ''k'') = Inr (Some 5)"
  by (simp add: epoch_db_rows stmt_getExpire_def exists_def stmt_exists_def stmt_get_def
      get_def expired_on_read_def unary_codec_def)

text \<open>
  Claim C7. \<^verbatim>\<open>getExpire(key)\<close> is to return the stored expiry timestamp when one is set,
  and \<^verbatim>\<open>null\<close> when the row has none or when there is no row. The code at the input
  \<^verbatim>\<open>set("k", 5, new Date(0))\<close>: the stored \<^verbatim>\<open>expires_at\<close> is 0 and \<^verbatim>\<open>getExpire("k")\<close>
  returns \<^verbatim>\<open>null\<close>.
\<close>

theorem getExpire_null_at_epoch:
  "stmt_getExpire epoch_db ''k'' = Some (Some 0) \<and>
   getExpire epoch_db ''k'' = (Inr None, epoch_db)"
  by (simp add: epoch_db_rows stmt_getExpire_def getExpire_def)

text \<open>
  Claim C10. For every key whose row has \<^verbatim>\<open>expires_at\<close> equal to 0, at every time:
  \<^verbatim>\<open>get(key)\<close> does not take the row as expired, it returns what \<^verbatim>\<open>decodeValue\<close> makes of
  the stored value (or throws its error) and leaves the table as it was, and
  \<^verbatim>\<open>getExpire(key)\<close> returns \<^verbatim>\<open>null\<close>; the test of \<^verbatim>\<open>get\<close> is false of a column that is 0.
\<close>

theorem epoch_expiry_is_no_expiry:
  assumes "stmt_get db k = Some it" and "expires_at it = Some 0"
  shows "\<not> expired_on_read (expires_at it) now \<and>
         get c db now k =
           (case decodeValue c (item_value it) of
              Inl e \<Rightarrow> (Inl e, db)
            | Inr v \<Rightarrow> (Inr (Some v), db)) \<and>
         getExpire db k = (Inr None, db)"
proof -
  have test: "\<not> expired_on_read (expires_at it) now"
    using assms(2) by (simp add: expired_on_read_def)
  have "stmt_getExpire db k = Some (Some 0)"
    using assms by (simp add: stmt_getExpire_get)
  then have "getExpire db k = (Inr None, db)"
    by (simp add: getExpire_def)
  with test get_decodes [OF assms(1) test] show ?thesis
    by simp
qed

theorem epoch_expiry_is_no_expiry_witness:
  "stmt_get (stmt_set [] ''a'' [0, 0] (Some 0)) ''a'' =
     Some \<lparr>item_value = [0, 0], expires_at = Some 0\<rparr> \<and>
   get unary_codec (stmt_set [] ''a'' [0, 0] (Some 0)) 1700000000000 ''a'' =
     (Inr (Some 2), stmt_set [] ''a'' [0, 0] (Some 0)) \<and>
   getExpire (stmt_set [] ''a'' [0, 0] (Some 0)) ''a'' =
     (Inr None, stmt_set [] ''a'' [0, 0] (Some 0))"
proof -
  have row: "stmt_get (stmt_set [] ''a'' [0, 0] (Some 0)) ''a'' =
               Some \<lparr>item_value = [0, 0], expires_at = Some 0\<rparr>"
    by (simp add: stmt_get_set)
  from epoch_expiry_is_no_expiry [OF row, where c = unary_codec and now = 1700000000000] row
  show ?thesis by (simp add: unary_codec_def)
qed

subsection \<open>\<^verbatim>\<open>set\<close> and \<^verbatim>\<open>multiSet\<close>\<close>

lemma set_kv_fails:
  "encodeValue c v = Inl e \<Longrightarrow> set_kv c db k v x = (Inl e, db)"
  by (simp add: set_kv_def)

lemma set_kv_ok:
  "encodeValue c v = Inr b \<Longrightarrow> set_kv c db k v x = (Inr (), stmt_set db k b x)"
  by (simp add: set_kv_def split: option.splits)

text \<open>The loop stops with an error as soon as one value cannot be encoded.\<close>

lemma multiSet_loop_fails:
  "\<exists>entry\<in>set entries. \<exists>e. encodeValue c (entry_value entry) = Inl e \<Longrightarrow>
   \<exists>e db'. multiSet_loop c entries db = (Inl e, db')"
proof (induction entries arbitrary: db)
  case Nil
  then show ?case by simp
next
  case (Cons entry entries)
  show ?case
  proof (cases "encodeValue c (entry_value entry)")
    case (Inl e)
    then show ?thesis by (simp add: set_kv_fails)
  next
    case (Inr b)
    with Cons.prems have "\<exists>entry\<in>set entries. \<exists>e. encodeValue c (entry_value entry) = Inl e"
      by auto
    from Cons.IH [OF this] Inr show ?thesis by (simp add: set_kv_ok)
  qed
qed

text \<open>
  When every value can be encoded the loop runs to its end, and a key then holds what
  the last entry with that key wrote, or what it held before when no entry has it.
\<close>

lemma multiSet_loop_ok:
  "\<forall>entry\<in>set entries. \<exists>b. encodeValue c (entry_value entry) = Inr b \<Longrightarrow>
   \<exists>db'. multiSet_loop c entries db = (Inr (), db') \<and>
     (\<forall>k. stmt_get db' k =
        (case find (\<lambda>entry. key entry = k) (rev entries) of
           None \<Rightarrow> stmt_get db k
         | Some entry \<Rightarrow> written c entry))"
proof (induction entries arbitrary: db)
  case Nil
  then show ?case by simp
next
  case (Cons entry entries)
  from Cons.prems obtain b where b: "encodeValue c (entry_value entry) = Inr b"
    by auto
  from Cons.prems have "\<forall>entry\<in>set entries. \<exists>b. encodeValue c (entry_value entry) = Inr b"
    by simp
  from Cons.IH [OF this, of "stmt_set db (key entry) b (expiresAt entry)"]
  obtain db' where
    run: "multiSet_loop c entries (stmt_set db (key entry) b (expiresAt entry)) = (Inr (), db')"
    and rows: "\<And>k. stmt_get db' k =
        (case find (\<lambda>entry. key entry = k) (rev entries) of
           None \<Rightarrow> stmt_get (stmt_set db (key entry) b (expiresAt entry)) k
         | Some entry \<Rightarrow> written c entry)"
    by blast
  have "multiSet_loop c (entry # entries) db = (Inr (), db')"
    using b run by (simp add: set_kv_ok)
  moreover have "stmt_get db' k =
        (case find (\<lambda>entry. key entry = k) (rev (entry # entries)) of
           None \<Rightarrow> stmt_get db k
         | Some entry \<Rightarrow> written c entry)" for k
    using b by (simp add: rows [of k] find_append_cases stmt_get_set written_def
        split: option.splits)
  ultimately show ?case by blast
qed


text \<open>
  Without the transaction the writes made before the failure stay: the loop alone, on
  the batch \<open>x \<mapsto> 1\<close>, \<open>y \<mapsto> -1\<close> (which \<open>unary_codec\<close> cannot encode), leaves \<open>x\<close> behind.
\<close>

lemma multiSet_loop_partial:
  "multiSet_loop unary_codec
     [\<lparr>key = ''x'', entry_value = 1, expiresAt = None\<rparr>,
      \<lparr>key = ''y'', entry_value = - 1, expiresAt = None\<rparr>] [] =
   (Inl ValidationError, [\<lparr>row_key = ''x'', row_value = [0], row_expires_at = None\<rparr>])"
  by (simp add: set_kv_def unary_codec_def stmt_set_def)

text \<open>
  Claim C2. \<^verbatim>\<open>multiSet(entries)\<close> runs the calls of \<^verbatim>\<open>set\<close> in one transaction. If the
  value of some entry cannot be encoded, the call throws and the whole batch is rolled
  back: the table is what it was before the call, so no key of the batch that was
  absent before is present afterwards. If every value can be encoded, the call returns
  and every entry is applied: each key of the batch holds the encoded value and the
  expiry of the last entry written to it, and every other key is untouched.
\<close>

theorem multiSet_atomic:
  "((\<exists>entry\<in>set entries. \<exists>e. encodeValue c (entry_value entry) = Inl e) \<longrightarrow>
      (\<exists>e. fst (multiSet c db entries) = Inl e) \<and>
      snd (multiSet c db entries) = db \<and>
      (\<forall>entry\<in>set entries. stmt_get db (key entry) = None \<longrightarrow>
         stmt_get (snd (multiSet c db entries)) (key entry) = None)) \<and>
   ((\<forall>entry\<in>set entries. \<exists>b. encodeValue c (entry_value entry) = Inr b) \<longrightarrow>
      fst (multiSet c db entries) = Inr () \<and>
      (\<forall>k. stmt_get (snd (multiSet c db entries)) k =
         (case find (\<lambda>entry. key entry = k) (rev entries) of
            None \<Rightarrow> stmt_get db k
          | Some entry \<Rightarrow> written c entry)))"
proof (intro conjI impI)
  assume "\<exists>entry\<in>set entries. \<exists>e. encodeValue c (entry_value entry) = Inl e"
  from multiSet_loop_fails [OF this, of db]
  obtain e db' where "multiSet_loop c entries db = (Inl e, db')"
    by blast
  then have rolled_back: "multiSet c db entries = (Inl e, db)"
    by (simp add: multiSet_def transaction_def)
  then show "\<exists>e. fst (multiSet c db entries) = Inl e"
    by simp
  from rolled_back show "snd (multiSet c db entries) = db"
    by simp
  from rolled_back
  show "\<forall>entry\<in>set entries. stmt_get db (key entry) = None \<longrightarrow>
          stmt_get (snd (multiSet c db entries)) (key entry) = None"
    by simp
next
  assume "\<forall>entry\<in>set entries. \<exists>b. encodeValue c (entry_value entry) = Inr b"
  from multiSet_loop_ok [OF this, of db]
  obtain db' where
    run: "multiSet_loop c entries db = (Inr (), db')"
    and rows: "\<forall>k. stmt_get db' k =
        (case find (\<lambda>entry. key entry = k) (rev entries) of
           None \<Rightarrow> stmt_get db k
         | Some entry \<Rightarrow> written c entry)"
    by blast
  from run have committed: "multiSet c db entries = (Inr (), db')"
    by (simp add: multiSet_def transaction_def)
  then show "fst (multiSet c db entries) = Inr ()"
    by simp
  from committed rows
  show "\<forall>k. stmt_get (snd (multiSet c db entries)) k =
         (case find (\<lambda>entry. key entry = k) (rev entries) of
            None \<Rightarrow> stmt_get db k
          | Some entry \<Rightarrow> written c entry)"
    by simp
qed

theorem multiSet_atomic_witness:
  "fst (multiSet unary_codec (stmt_set [] ''z'' [0] None)
          [\<lparr>key = ''x'', entry_value = 1, expiresAt = None\<rparr>,
           \<lparr>key = ''y'', entry_value = - 1, expiresAt = None\<rparr>]) = Inl ValidationError \<and>
   snd (multiSet unary_codec (stmt_set [] ''z'' [0] None)
          [\<lparr>key = ''x'', entry_value = 1, expiresAt = None\<rparr>,
           \<lparr>key = ''y'', entry_value = - 1, expiresAt = None\<rparr>]) = stmt_set [] ''z'' [0] None \<and>
   stmt_get (snd (multiSet unary_codec (stmt_set [] ''z'' [0] None)
          [\<lparr>key = ''x'', entry_value = 1, expiresAt = None\<rparr>,
           \<lparr>key = ''y'', entry_value = - 1, expiresAt = None\<rparr>])) ''x'' = None \<and>
   stmt_get (snd (multiSet unary_codec (stmt_set [] ''z'' [0] None)
          [\<lparr>key = ''x'', entry_value = 1, expiresAt = None\<rparr>,
           \<lparr>key = ''y'', entry_value = - 1, expiresAt = None\<rparr>])) ''y'' = None \<and>
   fst (multiSet unary_codec (stmt_set [] ''z'' [0] None)
          [\<lparr>key = ''x'', entry_value = 1, expiresAt = None\<rparr>,
           \<lparr>key = ''y'', entry_value = 2, expiresAt = Some 9\<rparr>]) = Inr () \<and>
   stmt_get (snd (multiSet unary_codec (stmt_set [] ''z'' [0] None)
          [\<lparr>key = ''x'', entry_value = 1, expiresAt = None\<rparr>,
           \<lparr>key = ''y'', entry_value = 2, expiresAt = Some 9\<rparr>])) ''x'' =
     Some \<lparr>item_value = [0], expires_at = None\<rparr> \<and>
   stmt_get (snd (multiSet unary_codec (stmt_set [] ''z'' [0] None)
          [\<lparr>key = ''x'', entry_value = 1, expiresAt = None\<rparr>,
           \<lparr>key = ''y'', entry_value = 2, expiresAt = Some 9\<rparr>])) ''y'' =
     Some \<lparr>item_value = [0, 0], expires_at = Some 9\<rparr> \<and>
   stmt_get (snd (multiSet unary_codec (stmt_set [] ''z'' [0] None)
          [\<lparr>key = ''x'', entry_value = 1, expiresAt = None\<rparr>,
           \<lparr>key = ''y'', entry_value = 2, expiresAt = Some 9\<rparr>])) ''z'' =
     Some \<lparr>item_value = [0], expires_at = None\<rparr>"
proof -
  let ?db = "stmt_set [] ''z'' [0] None"
  let ?bad = "[\<lparr>key = ''x'', entry_value = 1, expiresAt = None\<rparr>,
               \<lparr>key = ''y'', entry_value = - 1 :: int, expiresAt = None\<rparr>]"
  let ?good = "[\<lparr>key = ''x'', entry_value = 1, expiresAt = None\<rparr>,
                \<lparr>key = ''y'', entry_value = 2 :: int, expiresAt = Some 9\<rparr>]"
  have fails: "\<exists>entry\<in>set ?bad. \<exists>e. encodeValue unary_codec (entry_value entry) = Inl e"
    by (simp add: unary_codec_def)
  have encodes: "\<forall>entry\<in>set ?good. \<exists>b. encodeValue unary_codec (entry_value entry) = Inr b"
    by (simp add: unary_codec_def)
  have absent: "stmt_get ?db ''x'' = None" "stmt_get ?db ''y'' = None"
    by (simp_all add: stmt_get_set stmt_get_Nil)
  have err: "fst (multiSet unary_codec ?db ?bad) = Inl ValidationError"
    by (simp add: multiSet_def transaction_def set_kv_def unary_codec_def)
  from multiSet_atomic [of ?bad unary_codec ?db] fails
  have restored: "snd (multiSet unary_codec ?db ?bad) = ?db"
    and kept_out: "\<forall>entry\<in>set ?bad. stmt_get ?db (key entry) = None \<longrightarrow>
         stmt_get (snd (multiSet unary_codec ?db ?bad)) (key entry) = None"
    by blast+
  from kept_out absent
  have 1: "stmt_get (snd (multiSet unary_codec ?db ?bad)) ''x'' = None \<and>
     stmt_get (snd (multiSet unary_codec ?db ?bad)) ''y'' = None"
    by simp
  from multiSet_atomic [of ?good unary_codec ?db] encodes
  have 2: "fst (multiSet unary_codec ?db ?good) = Inr () \<and>
      (\<forall>k. stmt_get (snd (multiSet unary_codec ?db ?good)) k =
         (case find (\<lambda>entry. key entry = k) (rev ?good) of
            None \<Rightarrow> stmt_get ?db k
          | Some entry \<Rightarrow> written unary_codec entry))"
    by blast
  then have 3: "stmt_get (snd (multiSet unary_codec ?db ?good)) ''x'' = Some \<lparr>item_value = [0], expires_at = None\<rparr>"
     "stmt_get (snd (multiSet unary_codec ?db ?good)) ''y'' = Some \<lparr>item_value = [0, 0], expires_at = Some 9\<rparr>"
     "stmt_get (snd (multiSet unary_codec ?db ?good)) ''z'' = Some \<lparr>item_value = [0], expires_at = None\<rparr>"
    by (simp_all add: written_def unary_codec_def stmt_get_set stmt_get_Nil eval_nat_numeral)
  from err restored 1 2 3 show ?thesis by blast
qed

subsection \<open>\<^verbatim>\<open>keys\<close> and \<^verbatim>\<open>pagination\<close>\<close>

text \<open>
  Up to \<open>2 ^ 53\<close> in magnitude an integer is a double, and SQLite takes it as an
  integer.
\<close>

lemma round_double_small: "\<bar>n\<bar> < 2 ^ 53 \<Longrightarrow> round_double n = n"
proof -
  assume "\<bar>n\<bar> < 2 ^ 53"
  then have "bitlen \<bar>n\<bar> \<le> 53"
    by (simp add: bitlen_le_iff_power)
  then show ?thesis
    by (simp add: round_double_def)
qed

lemma round_double_power53: "round_double (2 ^ 53) = 2 ^ 53" "round_double (- (2 ^ 53)) = - (2 ^ 53)"
  by (simp_all add: round_double_def compute_bitlen Let_def)

lemma round_double_safe: "\<bar>n\<bar> \<le> 2 ^ 53 \<Longrightarrow> round_double n = n"
proof -
  assume "\<bar>n\<bar> \<le> 2 ^ 53"
  then consider "\<bar>n\<bar> < 2 ^ 53" | "n = 2 ^ 53" | "n = - (2 ^ 53)"
    by linarith
  then show ?thesis
    using round_double_power53 by cases (simp_all add: round_double_small)
qed

lemma finite_safe: "\<bar>n :: int\<bar> \<le> 2 ^ 53 \<Longrightarrow> \<not> 2 ^ 1024 \<le> \<bar>n\<bar>"
proof -
  assume "\<bar>n\<bar> \<le> 2 ^ 53"
  moreover have "(2::int) ^ 53 < 2 ^ 1024"
    by (rule power_strict_increasing) simp_all
  ultimately show ?thesis
    by linarith
qed

lemma sql_offset_drop: "sql_offset n rows = drop (nat n) rows"
  by (simp add: sql_offset_def)

lemma sql_limit_take: "sql_limit n rows = (if n < 0 then rows else take (nat n) rows)"
  by (simp add: sql_limit_def)

lemma sqlite_integer_safe: "\<bar>d\<bar> \<le> 2 ^ 53 \<Longrightarrow> sqlite_integer d"
  by (simp add: sqlite_integer_def) linarith

text \<open>In the range of the safe integers the offset is exact and the statement runs.\<close>

lemma pagination_safe:
  assumes "\<bar>limit\<bar> < 2 ^ 53" and "\<bar>page\<bar> < 2 ^ 53" and "\<bar>(page - 1) * limit\<bar> < 2 ^ 53"
  shows "pagination db limit page pattern =
           (Inr (if limit < 0 then drop (nat ((page - 1) * limit)) (stmt_keys db pattern)
                 else take (nat limit) (drop (nat ((page - 1) * limit)) (stmt_keys db pattern))),
            db)"
proof -
  have l: "round_double limit = limit" and p: "round_double page = page"
    using assms by (simp_all add: round_double_small)
  have "\<bar>page - 1\<bar> \<le> 2 ^ 53"
    using assms(2) by linarith
  then have p1: "js_minus page 1 = page - 1"
    by (simp add: js_minus_def round_double_safe)
  have "\<not> 2 ^ 1024 \<le> \<bar>page - 1\<bar>" and "\<not> 2 ^ 1024 \<le> \<bar>limit\<bar>"
    using \<open>\<bar>page - 1\<bar> \<le> 2 ^ 53\<close> assms(1) by (simp_all only: finite_safe less_imp_le not_False_eq_True)
  then have off: "js_times (page - 1) limit = (page - 1) * limit"
    using assms(3) by (simp only: js_times_def if_False round_double_small)
  have "sqlite_integer limit" and "sqlite_integer ((page - 1) * limit)"
    using assms by (simp_all add: sqlite_integer_safe)
  then show ?thesis
    by (simp add: pagination_def stmt_pagination_def sql_offset_drop sql_limit_take
        l p p1 off Let_def)
qed



lemma two_db_rows:
  "two_db = [\<lparr>row_key = ''a'', row_value = [0], row_expires_at = None\<rparr>,
             \<lparr>row_key = ''b'', row_value = [0, 0], row_expires_at = None\<rparr>]"
  by (simp add: two_db_def stmt_set_def)

lemma stmt_keys_all: "stmt_keys db ''%'' = map row_key db"
  by (simp add: stmt_keys_def like_percent del: like.simps)

text \<open>
  The keys \<open>k1\<close> to \<open>k10\<close>, inserted in this order, are scanned in the order of the
  keys, \<open>k10\<close> after \<open>k1\<close>.
\<close>

lemma ten_db_keys:
  "stmt_keys ten_db ''%'' =
     [''k1'', ''k10'', ''k2'', ''k3'', ''k4'', ''k5'', ''k6'', ''k7'', ''k8'', ''k9'']"
  by code_simp

lemma slice_example:
  "take (nat 3) (drop (nat ((2 - 1) * 3)) [k1, k2, k3, k4, k5, k6, k7, k8, k9, k10]) = [k4, k5, k6]"
  by (simp add: eval_nat_numeral)




text \<open>
  Claim C4, as stated: for every \<open>limit > 0\<close> and \<open>page \<ge> 1\<close>, \<^verbatim>\<open>pagination\<close> returns the
  slice of the matching keys at offset \<open>(page - 1) * limit\<close>. For
  \<^verbatim>\<open>pagination(3000000000, 4000000001)\<close> on the table \<open>two_db\<close> that slice is empty; the
  offset, 12000000000000000000, is beyond the 64-bit integers, and the call throws the
  error of the backend.
\<close>

theorem pagination_fails_beyond_int64:
  "keys two_db ''%'' = (Inr [''a'', ''b''], two_db) \<and>
   pagination two_db 3000000000 4000000001 ''%'' = (Inl BackendError, two_db)"
proof -
  have "round_double 3000000000 = 3000000000" "round_double 4000000001 = 4000000001"
    "round_double 4000000000 = 4000000000"
    by (simp_all add: round_double_small)
  moreover have "round_double 12000000000000000000 = 12000000000000000000"
    by (simp add: round_double_def compute_bitlen Let_def)
  ultimately show ?thesis
    by (simp add: keys_def stmt_keys_all two_db_rows pagination_def js_minus_def js_times_def
        stmt_pagination_def sqlite_integer_def Let_def)
qed


text \<open>
  Claim C4, amended. For every \<open>limit > 0\<close> and \<open>page \<ge> 1\<close>, both below \<open>2 ^ 53\<close> and
  with \<open>(page - 1) * limit\<close> below \<open>2 ^ 53\<close>, and every pattern, \<^verbatim>\<open>pagination\<close> returns the
  slice of the sequence that \<^verbatim>\<open>keys(pattern)\<close> returns which starts at offset
  \<open>(page - 1) * limit\<close> and has at most \<open>limit\<close> keys; when that sequence is
  \<open>k1, \<dots>, k10\<close>, \<^verbatim>\<open>pagination(3, 2)\<close> returns \<open>k4, k5, k6\<close>, its 4th to 6th keys.
\<close>

theorem pagination_slice:
  assumes "0 < limit" and "1 \<le> page"
    and "limit < 2 ^ 53" and "page < 2 ^ 53" and "(page - 1) * limit < 2 ^ 53"
  shows "\<exists>ks. keys db pattern = (Inr ks, db) \<and>
           pagination db limit page pattern =
             (Inr (take (nat limit) (drop (nat ((page - 1) * limit)) ks)), db) \<and>
           int (length (take (nat limit) (drop (nat ((page - 1) * limit)) ks))) \<le> limit \<and>
           (\<forall>k1 k2 k3 k4 k5 k6 k7 k8 k9 k10.
              ks = [k1, k2, k3, k4, k5, k6, k7, k8, k9, k10] \<and> limit = 3 \<and> page = 2 \<longrightarrow>
              pagination db limit page pattern = (Inr [k4, k5, k6], db))"
proof (intro exI conjI allI impI)
  show "keys db pattern = (Inr (stmt_keys db pattern), db)"
    by (simp add: keys_def)
  have "0 \<le> (page - 1) * limit"
    using assms(1,2) by simp
  with assms
  show cut: "pagination db limit page pattern =
      (Inr (take (nat limit) (drop (nat ((page - 1) * limit)) (stmt_keys db pattern))), db)"
    by (simp add: pagination_safe)
  show "int (length (take (nat limit) (drop (nat ((page - 1) * limit)) (stmt_keys db pattern)))) \<le> limit"
    using assms by simp
  fix k1 k2 k3 k4 k5 k6 k7 k8 k9 k10
  assume "stmt_keys db pattern = [k1, k2, k3, k4, k5, k6, k7, k8, k9, k10] \<and> limit = 3 \<and> page = 2"
  then have ks: "stmt_keys db pattern = [k1, k2, k3, k4, k5, k6, k7, k8, k9, k10]"
    and l: "limit = 3" and p: "page = 2"
    by simp_all
  note cut
  also have "(Inr (take (nat limit) (drop (nat ((page - 1) * limit)) (stmt_keys db pattern))), db) =
      (Inr [k4, k5, k6] :: error + string list, db)"
    by (simp only: ks l p slice_example)
  finally show "pagination db limit page pattern = (Inr [k4, k5, k6], db)" .
qed

theorem pagination_slice_witness:
  "keys ten_db ''%'' =
     (Inr [''k1'', ''k10'', ''k2'', ''k3'', ''k4'', ''k5'', ''k6'', ''k7'', ''k8'', ''k9''], ten_db) \<and>
   pagination ten_db 3 2 ''%'' = (Inr [''k3'', ''k4'', ''k5''], ten_db) \<and>
   pagination ten_db 4 3 ''%'' = (Inr [''k8'', ''k9''], ten_db)"
proof -
  have all: "keys ten_db ''%'' =
     (Inr [''k1'', ''k10'', ''k2'', ''k3'', ''k4'', ''k5'', ''k6'', ''k7'', ''k8'', ''k9''], ten_db)"
    by (simp add: keys_def ten_db_keys)
  have "(0::int) < 3" "(1::int) \<le> 2" "(3::int) < 2 ^ 53" "(2::int) < 2 ^ 53"
    "((2::int) - 1) * 3 < 2 ^ 53"
    by simp_all
  from pagination_slice [OF this, of ten_db "''%''"]
  obtain ks where ks: "keys ten_db ''%'' = (Inr ks, ten_db)"
    and example: "\<forall>k1 k2 k3 k4 k5 k6 k7 k8 k9 k10.
              ks = [k1, k2, k3, k4, k5, k6, k7, k8, k9, k10] \<and> (3::int) = 3 \<and> (2::int) = 2 \<longrightarrow>
              pagination ten_db 3 2 ''%'' = (Inr [k4, k5, k6], ten_db)"
    by blast
  from ks all
  have "ks = [''k1'', ''k10'', ''k2'', ''k3'', ''k4'', ''k5'', ''k6'', ''k7'', ''k8'', ''k9'']"
    by simp
  with example [rule_format, of "''k1''" "''k10''" "''k2''" "''k3''" "''k4''" "''k5''" "''k6''"
      "''k7''" "''k8''" "''k9''"]
  have page2: "pagination ten_db 3 2 ''%'' = (Inr [''k3'', ''k4'', ''k5''], ten_db)"
    by simp
  have "(0::int) < 4" "(1::int) \<le> 3" "(4::int) < 2 ^ 53" "(3::int) < 2 ^ 53"
    "((3::int) - 1) * 4 < 2 ^ 53"
    by simp_all
  from pagination_slice [OF this, of ten_db "''%''"] all
  have page3: "pagination ten_db 4 3 ''%'' = (Inr [''k8'', ''k9''], ten_db)"
    by (auto simp: eval_nat_numeral)
  from all page2 page3 show ?thesis
    by blast
qed

subsection \<open>\<^verbatim>\<open>rename\<close>\<close>

text \<open>What GET reads after RENAME.\<close>

lemma find_key_filter2:
  "find (\<lambda>r. row_key r = k) (filter (\<lambda>r. row_key r \<noteq> a \<and> row_key r \<noteq> b) db) =
     (if k = a \<or> k = b then None else find (\<lambda>r. row_key r = k) db)"
  by (induction db) auto

lemma stmt_get_rename_new:
  "stmt_get db oldKey = Some it \<Longrightarrow> stmt_get (stmt_rename db newKey oldKey) newKey = Some it"
  by (auto simp: stmt_get_def stmt_rename_def find_key_insort)

lemma stmt_get_rename_old:
  "stmt_get db oldKey = Some it \<Longrightarrow> oldKey \<noteq> newKey \<Longrightarrow>
   stmt_get (stmt_rename db newKey oldKey) oldKey = None"
  by (auto simp: stmt_get_def stmt_rename_def find_key_insort find_key_filter2)

lemma stmt_get_rename_other:
  "k \<noteq> oldKey \<Longrightarrow> k \<noteq> newKey \<Longrightarrow>
   stmt_get (stmt_rename db newKey oldKey) k = stmt_get db k"
  by (auto simp: stmt_get_def stmt_rename_def find_key_insort find_key_filter2
      split: option.splits)

lemma stmt_rename_absent:
  "stmt_get db oldKey = None \<Longrightarrow> stmt_rename db newKey oldKey = db"
  by (simp add: stmt_get_def stmt_rename_def)

text \<open>The primary key stays unique, and the rows stay in key order, under the statements that write.\<close>

lemma distinct_keys_insort:
  "distinct (map row_key (insort_key row_key x xs)) \<longleftrightarrow>
     row_key x \<notin> row_key ` set xs \<and> distinct (map row_key xs)"
  by (induction xs) (auto simp: set_insort_key)

lemma distinct_stmt_rename:
  "distinct (map row_key db) \<Longrightarrow> distinct (map row_key (stmt_rename db newKey oldKey))"
  by (auto simp: stmt_rename_def distinct_keys_insort distinct_map_filter split: option.splits)

lemma distinct_stmt_set:
  "distinct (map row_key db) \<Longrightarrow> distinct (map row_key (stmt_set db k b e))"
  by (auto simp: stmt_set_def distinct_keys_insort distinct_map_filter)

lemma distinct_stmt_delete:
  "distinct (map row_key db) \<Longrightarrow> distinct (map row_key (stmt_delete db k))"
  by (simp add: stmt_delete_def distinct_map_filter)

lemma distinct_stmt_cleanup:
  "distinct (map row_key db) \<Longrightarrow> distinct (map row_key (stmt_cleanup db now))"
  by (simp add: stmt_cleanup_def distinct_map_filter)

lemma sorted_keys_filter:
  "sorted (map row_key db) \<Longrightarrow> sorted (map row_key (filter P db))"
  by (induction db) auto

lemma sorted_stmt_set:
  "sorted (map row_key db) \<Longrightarrow> sorted (map row_key (stmt_set db k b e))"
  by (simp add: stmt_set_def sorted_insort_key sorted_keys_filter)

lemma sorted_stmt_rename:
  "sorted (map row_key db) \<Longrightarrow> sorted (map row_key (stmt_rename db newKey oldKey))"
  by (simp add: stmt_rename_def sorted_insort_key sorted_keys_filter split: option.splits)

lemma sorted_stmt_delete:
  "sorted (map row_key db) \<Longrightarrow> sorted (map row_key (stmt_delete db k))"
  by (simp add: stmt_delete_def sorted_keys_filter)

lemma sorted_stmt_cleanup:
  "sorted (map row_key db) \<Longrightarrow> sorted (map row_key (stmt_cleanup db now))"
  by (simp add: stmt_cleanup_def sorted_keys_filter)

text \<open>
  Claim C6. \<^verbatim>\<open>rename(oldKey, newKey)\<close> does nothing when no row has the old key.
  Otherwise the row of the old key, with its value and expiry, becomes the row of the
  new key, whatever row the new key had before (the key stays unique, so that row is
  gone), the old key has no row any more, and every other key is untouched. So after
  \<^verbatim>\<open>set("a", v); rename("a", "b")\<close>, for a value \<open>v\<close> that the codec encodes and decodes
  back, \<^verbatim>\<open>get("a")\<close> returns \<^verbatim>\<open>null\<close> and \<^verbatim>\<open>get("b")\<close> returns \<open>v\<close>.
\<close>

theorem rename_relabels:
  "(stmt_get db oldKey = None \<longrightarrow> rename db oldKey newKey = (Inr (), db)) \<and>
   (\<forall>it. stmt_get db oldKey = Some it \<longrightarrow>
      fst (rename db oldKey newKey) = Inr () \<and>
      stmt_get (snd (rename db oldKey newKey)) newKey = Some it \<and>
      (oldKey \<noteq> newKey \<longrightarrow> stmt_get (snd (rename db oldKey newKey)) oldKey = None)) \<and>
   (\<forall>k. k \<noteq> oldKey \<and> k \<noteq> newKey \<longrightarrow>
      stmt_get (snd (rename db oldKey newKey)) k = stmt_get db k) \<and>
   (distinct (map row_key db) \<longrightarrow> distinct (map row_key (snd (rename db oldKey newKey)))) \<and>
   (encodeValue c v = Inr b \<and> decodeValue c b = Inr v \<longrightarrow>
      fst (get c (snd (rename (snd (set_kv c db ''a'' v None)) ''a'' ''b'')) now ''a'') = Inr None \<and>
      fst (get c (snd (rename (snd (set_kv c db ''a'' v None)) ''a'' ''b'')) now ''b'') = Inr (Some v))"
proof (intro conjI allI impI)
  show "rename db oldKey newKey = (Inr (), db)" if "stmt_get db oldKey = None"
    using that by (simp add: rename_def stmt_rename_absent)
  show "fst (rename db oldKey newKey) = Inr ()" for it
    by (simp add: rename_def)
  show "stmt_get (snd (rename db oldKey newKey)) newKey = Some it"
    if "stmt_get db oldKey = Some it" for it
    using that by (simp add: rename_def stmt_get_rename_new)
  show "stmt_get (snd (rename db oldKey newKey)) oldKey = None"
    if "stmt_get db oldKey = Some it" "oldKey \<noteq> newKey" for it
    using that by (simp add: rename_def stmt_get_rename_old)
  show "stmt_get (snd (rename db oldKey newKey)) k = stmt_get db k"
    if "k \<noteq> oldKey \<and> k \<noteq> newKey" for k
    using that by (simp add: rename_def stmt_get_rename_other)
  show "distinct (map row_key (snd (rename db oldKey newKey)))" if "distinct (map row_key db)"
    using that by (simp add: rename_def distinct_stmt_rename)
next
  assume codec: "encodeValue c v = Inr b \<and> decodeValue c b = Inr v"
  let ?db1 = "snd (set_kv c db ''a'' v None)"
  let ?db2 = "snd (rename ?db1 ''a'' ''b'')"
  have a: "stmt_get ?db1 ''a'' = Some \<lparr>item_value = b, expires_at = None\<rparr>"
    using codec by (simp add: set_kv_ok stmt_get_set)
  have "stmt_get ?db2 ''a'' = None"
    using a by (simp add: rename_def stmt_get_rename_old)
  then show "fst (get c ?db2 now ''a'') = Inr None"
    by (simp add: get_absent)
  have "stmt_get ?db2 ''b'' = Some \<lparr>item_value = b, expires_at = None\<rparr>"
    using a by (simp add: rename_def stmt_get_rename_new)
  from get_decodes [OF this, of now c] codec
  show "fst (get c ?db2 now ''b'') = Inr (Some v)"
    by (simp add: expired_on_read_def)
qed


theorem rename_relabels_witness:
  "stmt_get two_db ''a'' = Some \<lparr>item_value = [0], expires_at = None\<rparr> \<and>
   stmt_get (snd (rename two_db ''a'' ''b'')) ''b'' = Some \<lparr>item_value = [0], expires_at = None\<rparr> \<and>
   stmt_get (snd (rename two_db ''a'' ''b'')) ''a'' = None \<and>
   distinct (map row_key (snd (rename two_db ''a'' ''b''))) \<and>
   rename two_db ''c'' ''b'' = (Inr (), two_db) \<and>
   fst (get unary_codec (snd (rename (snd (set_kv unary_codec two_db ''a'' 1 None)) ''a'' ''b''))
          1000 ''a'') = Inr None \<and>
   fst (get unary_codec (snd (rename (snd (set_kv unary_codec two_db ''a'' 1 None)) ''a'' ''b''))
          1000 ''b'') = Inr (Some 1)"
proof -
  have a: "stmt_get two_db ''a'' = Some \<lparr>item_value = [0], expires_at = None\<rparr>"
    and c: "stmt_get two_db ''c'' = None"
    and keys: "distinct (map row_key two_db)"
    by (simp_all add: two_db_rows stmt_get_def)
  have codec: "encodeValue unary_codec 1 = Inr [0] \<and> decodeValue unary_codec [0] = Inr 1"
    by (simp add: unary_codec_def)
  note present = rename_relabels
    [where db = two_db and oldKey = "''a''" and newKey = "''b''" and c = unary_codec
       and v = 1 and b = "[0]" and now = 1000]
  note absent = rename_relabels
    [where db = two_db and oldKey = "''c''" and newKey = "''b''" and c = unary_codec
       and v = 1 and b = "[0]" and now = 1000]
  from present a have "stmt_get (snd (rename two_db ''a'' ''b'')) ''b'' =
      Some \<lparr>item_value = [0], expires_at = None\<rparr>"
    and "stmt_get (snd (rename two_db ''a'' ''b'')) ''a'' = None"
    by simp_all
  moreover from present keys have "distinct (map row_key (snd (rename two_db ''a'' ''b'')))"
    by blast
  moreover from absent c have "rename two_db ''c'' ''b'' = (Inr (), two_db)"
    by blast
  moreover from present codec
  have "fst (get unary_codec (snd (rename (snd (set_kv unary_codec two_db ''a'' 1 None)) ''a'' ''b''))
          1000 ''a'') = Inr None"
    and "fst (get unary_codec (snd (rename (snd (set_kv unary_codec two_db ''a'' 1 None)) ''a'' ''b''))
          1000 ''b'') = Inr (Some 1)"
    by blast+
  ultimately show ?thesis
    using a by blast
qed

subsection \<open>\<^verbatim>\<open>cleanup\<close> and \<^verbatim>\<open>count\<close>\<close>

lemma stmt_cleanup_idle:
  "\<forall>r\<in>set db. \<not> passed now r \<Longrightarrow> stmt_cleanup db now = db"
  by (simp add: stmt_cleanup_def)

text \<open>
  Claim C8. \<^verbatim>\<open>cleanup()\<close> at time \<open>now\<close> keeps, in their order, exactly the rows whose
  \<^verbatim>\<open>expires_at\<close> is not both set and at most \<open>now\<close>, and deletes the others. A second
  \<^verbatim>\<open>cleanup()\<close> at a time \<open>now'\<close> by which none of the remaining rows has expired leaves
  \<^verbatim>\<open>count(pattern)\<close> unchanged, for every pattern; so does a second \<^verbatim>\<open>cleanup()\<close> at the
  same time.
\<close>

theorem cleanup_exact_and_idempotent:
  "snd (cleanup db now) =
     filter (\<lambda>r. \<not> (\<exists>t. row_expires_at r = Some t \<and> t \<le> now)) db \<and>
   (\<forall>r. r \<in> set (snd (cleanup db now)) \<longleftrightarrow>
        r \<in> set db \<and> \<not> (\<exists>t. row_expires_at r = Some t \<and> t \<le> now)) \<and>
   ((\<forall>r\<in>set (snd (cleanup db now)). \<not> (\<exists>t. row_expires_at r = Some t \<and> t \<le> now')) \<longrightarrow>
      fst (count (snd (cleanup (snd (cleanup db now)) now')) pattern) =
      fst (count (snd (cleanup db now)) pattern)) \<and>
   fst (count (snd (cleanup (snd (cleanup db now)) now)) pattern) =
     fst (count (snd (cleanup db now)) pattern)"
proof -
  have passed_iff: "passed t r \<longleftrightarrow> (\<exists>u. row_expires_at r = Some u \<and> u \<le> t)" for t r
    by (simp add: passed_def split: option.splits)
  have exact: "snd (cleanup db now) =
      filter (\<lambda>r. \<not> (\<exists>t. row_expires_at r = Some t \<and> t \<le> now)) db"
    by (simp add: cleanup_def stmt_cleanup_def passed_iff)
  have members: "\<forall>r. r \<in> set (snd (cleanup db now)) \<longleftrightarrow>
        r \<in> set db \<and> \<not> (\<exists>t. row_expires_at r = Some t \<and> t \<le> now)"
    by (simp add: exact)
  have idle: "snd (cleanup (snd (cleanup db now)) now') = snd (cleanup db now)"
    if "\<forall>r\<in>set (snd (cleanup db now)). \<not> (\<exists>t. row_expires_at r = Some t \<and> t \<le> now')"
    for now'
  proof -
    from that have "\<forall>r\<in>set (snd (cleanup db now)). \<not> passed now' r"
      by (simp add: passed_iff)
    then have "stmt_cleanup (snd (cleanup db now)) now' = snd (cleanup db now)"
      by (rule stmt_cleanup_idle)
    then show ?thesis by (simp add: cleanup_def)
  qed
  have again: "snd (cleanup (snd (cleanup db now)) now) = snd (cleanup db now)"
    by (rule idle) (simp add: members)
  from exact members idle again show ?thesis
    by simp
qed

theorem cleanup_exact_and_idempotent_witness:
  "snd (cleanup mixed_db 10) =
     [\<lparr>row_key = ''ever'', row_value = [0], row_expires_at = None\<rparr>,
      \<lparr>row_key = ''new'', row_value = [0], row_expires_at = Some 50\<rparr>] \<and>
   fst (count mixed_db ''%'') = Inr 4 \<and>
   fst (count (snd (cleanup mixed_db 10)) ''%'') = Inr 2 \<and>
   fst (count (snd (cleanup (snd (cleanup mixed_db 10)) 20)) ''%'') = Inr 2"
proof -
  note inst = cleanup_exact_and_idempotent
    [where db = mixed_db and now = 10 and now' = 20 and pattern = "''%''"]
  from inst have rows: "snd (cleanup mixed_db 10) =
     [\<lparr>row_key = ''ever'', row_value = [0], row_expires_at = None\<rparr>,
      \<lparr>row_key = ''new'', row_value = [0], row_expires_at = Some 50\<rparr>]"
    by (simp add: mixed_db_def)
  have quiet: "\<forall>r\<in>set (snd (cleanup mixed_db 10)). \<not> (\<exists>t. row_expires_at r = Some t \<and> t \<le> 20)"
    by (simp add: rows)
  have before: "fst (count mixed_db ''%'') = Inr 4"
    by (simp add: count_def stmt_countKeys_def like_percent mixed_db_def del: like.simps)
  have first: "fst (count (snd (cleanup mixed_db 10)) ''%'') = Inr 2"
    by (simp add: rows count_def stmt_countKeys_def like_percent del: like.simps)
  from inst quiet
  have "fst (count (snd (cleanup (snd (cleanup mixed_db 10)) 20)) ''%'') =
      fst (count (snd (cleanup mixed_db 10)) ''%'')"
    by blast
  with rows before first show ?thesis
    by simp
qed

end
